theory Spec2Isabelle
  imports Complex_Main "HOL-Library.Sublist"
begin

section \<open>Python values\<close>

text \<open>
  The module \<^verbatim>\<open>financial_functions.py\<close> computes with Python numbers. A Python
  \<^verbatim>\<open>int\<close> or \<^verbatim>\<open>float\<close> is modelled by a real number (exact arithmetic: the rounding,
  overflow and the infinities of IEEE doubles are outside the model), and a Python
  \<^verbatim>\<open>complex\<close> by a complex number. The distinction between the two is kept, because
  \<^verbatim>\<open>**\<close> leaves the reals on a negative base with a fractional exponent and
  \<^verbatim>\<open><\<close> raises on a complex operand.

  Every exception the modelled code can raise is a constructor of \<open>error\<close>, and a
  computation that may raise returns \<open>error + 'a\<close> with \<open>Inl\<close> for the exception.
  \<open>NotANumber\<close> stands for the IEEE value nan, which the reals do not have.
\<close>

datatype error =
    ZeroDivisionError | NameError | UnboundLocalError | KeyError
  | AttributeError | TypeError | ValueError | NotANumber

datatype pynum = Float real | Cplx complex

text \<open>Sequencing: the first exception raised ends the computation.\<close>

definition bindE :: "error + 'a \<Rightarrow> ('a \<Rightarrow> error + 'b) \<Rightarrow> error + 'b" where
  "bindE m f = (case m of Inl e \<Rightarrow> Inl e | Inr x \<Rightarrow> f x)"

text \<open>
  The arithmetic operators. Two real operands give a real result; a complex operand
  makes the result complex. True division raises on a zero divisor.
\<close>

fun to_complex :: "pynum \<Rightarrow> complex" where
  "to_complex (Float x) = complex_of_real x"
| "to_complex (Cplx z) = z"

fun py_add :: "pynum \<Rightarrow> pynum \<Rightarrow> pynum" where
  "py_add (Float x) (Float y) = Float (x + y)"
| "py_add a b = Cplx (to_complex a + to_complex b)"

fun py_sub :: "pynum \<Rightarrow> pynum \<Rightarrow> pynum" where
  "py_sub (Float x) (Float y) = Float (x - y)"
| "py_sub a b = Cplx (to_complex a - to_complex b)"

fun py_mul :: "pynum \<Rightarrow> pynum \<Rightarrow> pynum" where
  "py_mul (Float x) (Float y) = Float (x * y)"
| "py_mul a b = Cplx (to_complex a * to_complex b)"

fun py_neg :: "pynum \<Rightarrow> pynum" where
  "py_neg (Float x) = Float (- x)"
| "py_neg (Cplx z) = Cplx (- z)"

fun py_truediv :: "pynum \<Rightarrow> pynum \<Rightarrow> error + pynum" where
  "py_truediv (Float x) (Float y) =
     (if y = 0 then Inl ZeroDivisionError else Inr (Float (x / y)))"
| "py_truediv a b =
     (if to_complex b = 0 then Inl ZeroDivisionError
      else Inr (Cplx (to_complex a / to_complex b)))"

text \<open>
  The power operator. For two reals (\<^verbatim>\<open>float_pow\<close> of CPython): exponent zero gives 1; base
  zero raises on a negative exponent and gives 0 otherwise; a negative base with an
  integral exponent stays real; a negative base with any other exponent is handed to the
  complex power; a positive base gives the real power. The complex power is the polar
  form CPython computes: modulus \<open>|a| ^ Re b\<close>, argument \<open>Arg a * Re b\<close>, both
  corrected when the exponent has an imaginary part.
\<close>

definition complex_pow :: "complex \<Rightarrow> complex \<Rightarrow> error + complex" where
  "complex_pow a b =
     (if b = 0 then Inr 1
      else if a = 0 then
        (if Im b \<noteq> 0 \<or> Re b < 0 then Inl ZeroDivisionError else Inr 0)
      else
        (let vabs = cmod a;
             ph = Arg a;
             len = vabs powr Re b;
             phase = ph * Re b
         in if Im b \<noteq> 0
            then Inr (rcis (len / exp (ph * Im b)) (phase + Im b * ln vabs))
            else Inr (rcis len phase)))"

fun py_pow :: "pynum \<Rightarrow> pynum \<Rightarrow> error + pynum" where
  "py_pow (Float a) (Float b) =
     (if b = 0 then Inr (Float 1)
      else if a = 0 then
        (if b < 0 then Inl ZeroDivisionError else Inr (Float 0))
      else if a < 0 then
        (if b = of_int \<lfloor>b\<rfloor> then Inr (Float (a powi \<lfloor>b\<rfloor>))
         else bindE (complex_pow (complex_of_real a) (complex_of_real b))
                (\<lambda>z. Inr (Cplx z)))
      else Inr (Float (a powr b)))"
| "py_pow a b =
     bindE (complex_pow (to_complex a) (to_complex b)) (\<lambda>z. Inr (Cplx z))"

section \<open>Basic financial functions\<close>

text \<open>
  The module-level lambdas, lines 17 to 58:
  \<^verbatim>\<open>futureValue = lambda capital, interest, periods: capital * (1 + interest) ** periods\<close>
  \<^verbatim>\<open>presetValue = lambda capital, interest, periods: capital * (1 + interest) ** (-periods)\<close>
  \<^verbatim>\<open>annualInterest = lambda initial_capital, end_capital, years:
      (end_capital / initial_capital) ** (1 / years) - 1\<close>
  \<^verbatim>\<open>equivalentRate = lambda rate, cap, new_cap:
      new_cap * ((1 + rate / cap) ** (cap / new_cap) - 1)\<close>
  None of them checks its arguments: the only failures are the ones the operators raise.
\<close>

definition futureValue :: "pynum \<Rightarrow> pynum \<Rightarrow> pynum \<Rightarrow> error + pynum" where
  "futureValue capital interest periods =
     bindE (py_pow (py_add (Float 1) interest) periods)
       (\<lambda>p. Inr (py_mul capital p))"

definition presetValue :: "pynum \<Rightarrow> pynum \<Rightarrow> pynum \<Rightarrow> error + pynum" where
  "presetValue capital interest periods =
     bindE (py_pow (py_add (Float 1) interest) (py_neg periods))
       (\<lambda>p. Inr (py_mul capital p))"

definition annualInterest :: "pynum \<Rightarrow> pynum \<Rightarrow> pynum \<Rightarrow> error + pynum" where
  "annualInterest initial_capital end_capital years =
     bindE (py_truediv end_capital initial_capital) (\<lambda>q.
     bindE (py_truediv (Float 1) years) (\<lambda>e.
     bindE (py_pow q e) (\<lambda>p.
     Inr (py_sub p (Float 1)))))"

definition equivalentRate :: "pynum \<Rightarrow> pynum \<Rightarrow> pynum \<Rightarrow> error + pynum" where
  "equivalentRate rate cap new_cap =
     bindE (py_truediv rate cap) (\<lambda>q.
     bindE (py_truediv cap new_cap) (\<lambda>e.
     bindE (py_pow (py_add (Float 1) q) e) (\<lambda>p.
     Inr (py_mul new_cap (py_sub p (Float 1))))))"

text \<open>
  Comparison with \<^verbatim>\<open><\<close> and \<^verbatim>\<open>>\<close> raises TypeError on a complex operand;
  \<^verbatim>\<open>==\<close> never raises. \<open>py_int\<close> is \<^verbatim>\<open>int(x)\<close> on a float: truncation towards zero.
  \<open>py_round2\<close> is \<^verbatim>\<open>round(x, 2)\<close>: to two decimals, ties to even, TypeError on a complex.
\<close>

fun py_lt :: "pynum \<Rightarrow> pynum \<Rightarrow> error + bool" where
  "py_lt (Float x) (Float y) = Inr (x < y)"
| "py_lt a b = Inl TypeError"

fun py_gt :: "pynum \<Rightarrow> pynum \<Rightarrow> error + bool" where
  "py_gt (Float x) (Float y) = Inr (y < x)"
| "py_gt a b = Inl TypeError"

definition py_eq :: "pynum \<Rightarrow> pynum \<Rightarrow> bool" where
  "py_eq a b = (to_complex a = to_complex b)"

definition py_int :: "real \<Rightarrow> int" where
  "py_int x = (if 0 \<le> x then \<lfloor>x\<rfloor> else \<lceil>x\<rceil>)"

definition round_half_even :: "real \<Rightarrow> int" where
  "round_half_even x =
     (let f = \<lfloor>x\<rfloor>; d = x - of_int f
      in if d < 1 / 2 then f else if 1 / 2 < d then f + 1
         else if even f then f else f + 1)"

fun py_round2 :: "pynum \<Rightarrow> error + real" where
  "py_round2 (Float x) = Inr (of_int (round_half_even (x * 100)) / 100)"
| "py_round2 (Cplx z) = Inl TypeError"

section \<open>Class \<^verbatim>\<open>interest_rate\<close>\<close>

text \<open>
  An \<^verbatim>\<open>interest_rate\<close> object holds one attribute, the dictionary
  \<^verbatim>\<open>reference_rate = {'rate': ..., 'cap': ...}\<close>; the record below is that dictionary
  (\<open>ref_rate\<close> for the key \<^verbatim>\<open>'rate'\<close>, \<open>ref_cap\<close> for \<^verbatim>\<open>'cap'\<close>).
  The class table \<^verbatim>\<open>cap_options\<close> binds \<^verbatim>\<open>'cont'\<close> to \<^verbatim>\<open>float('inf')\<close>,
  here \<open>Infinity\<close>. The argument \<^verbatim>\<open>cap_desc\<close> of the methods is dispatched on its
  type: a \<^verbatim>\<open>str\<close> (\<open>PStr\<close>), an \<^verbatim>\<open>int\<close> (\<open>PInt\<close>), or anything else (\<open>POther\<close>),
  for which the local \<^verbatim>\<open>aux\<close> stays unbound.
\<close>

datatype capval = Finite real | Infinity

datatype cap_desc = PStr string | PInt int | POther

definition cap_options :: "(string \<times> capval) list" where
  "cap_options =
     [(''daily'', Finite 360), (''1m'', Finite 12), (''2m'', Finite 6),
      (''3m'', Finite 4), (''4m'', Finite 3), (''6m'', Finite 2),
      (''1y'', Finite 1), (''cont'', Infinity)]"

record interest_rate =
  ref_rate :: real
  ref_cap :: real

text \<open>
  Both methods call \<^verbatim>\<open>contEquivalentRate\<close> on the continuous target. The module
  binds no such name (it defines \<^verbatim>\<open>toDate\<close>, the lambdas above, \<^verbatim>\<open>realRate\<close>,
  \<^verbatim>\<open>getRiskFreeRate\<close> and the three classes, and imports \<^verbatim>\<open>numpy\<close> and
  \<^verbatim>\<open>datetime\<close> only), so looking the global up raises NameError before any argument
  is evaluated.
\<close>

definition contEquivalentRate :: "error + (pynum \<Rightarrow> pynum \<Rightarrow> error + pynum)" where
  "contEquivalentRate = Inl NameError"

text \<open>
  \<^verbatim>\<open>annualRate\<close> (lines 137 to 152) and \<^verbatim>\<open>rate\<close> (lines 155 to 169). The last case of
  each, a finite-looking descriptor bound to \<open>Infinity\<close>, is never reached, since
  \<^verbatim>\<open>'cont'\<close> is the only key bound to it; it is given the result IEEE arithmetic has there.
\<close>

definition annualRate :: "interest_rate \<Rightarrow> cap_desc \<Rightarrow> error + pynum" where
  "annualRate self cap_desc =
     bindE (case cap_desc of
              PStr s \<Rightarrow> (case map_of cap_options s of
                           None \<Rightarrow> Inl KeyError
                         | Some v \<Rightarrow> Inr (Some v))
            | PInt n \<Rightarrow> Inr (Some (Finite (of_int n)))
            | POther \<Rightarrow> Inr None) (\<lambda>aux.
     if cap_desc = PStr ''cont''
     then bindE contEquivalentRate
            (\<lambda>f. f (Float (ref_rate self)) (Float (ref_cap self)))
     else (case aux of
             None \<Rightarrow> Inl UnboundLocalError
           | Some (Finite n) \<Rightarrow>
               equivalentRate (Float (ref_rate self)) (Float (ref_cap self)) (Float n)
           | Some Infinity \<Rightarrow>
               bindE (py_truediv (Float (ref_rate self)) (Float (ref_cap self)))
                 (\<lambda>q. Inl NotANumber)))"

definition rate :: "interest_rate \<Rightarrow> cap_desc \<Rightarrow> error + pynum" where
  "rate self cap_desc =
     bindE (case cap_desc of
              PStr s \<Rightarrow> (case map_of cap_options s of
                           None \<Rightarrow> Inl KeyError
                         | Some v \<Rightarrow> Inr (Some v))
            | PInt n \<Rightarrow> Inr (Some (Finite (of_int n)))
            | POther \<Rightarrow> Inr None) (\<lambda>aux.
     if cap_desc = PStr ''cont''
     then annualRate self cap_desc
     else bindE (annualRate self cap_desc) (\<lambda>a.
            case aux of
              None \<Rightarrow> Inl UnboundLocalError
            | Some (Finite n) \<Rightarrow> py_truediv a (Float n)
            | Some Infinity \<Rightarrow> Inr (py_mul a (Float 0))))"

section \<open>Class \<^verbatim>\<open>debt\<close>\<close>

text \<open>
  A payment is the dictionary \<^verbatim>\<open>{'id', 'date', 'amount', 'valid'}\<close> that
  \<^verbatim>\<open>registerPayment\<close> appends; its date is kept as the text it was given. A \<^verbatim>\<open>debt\<close>
  object is the record of its instance attributes. Calendar dates are day numbers
  (\<^verbatim>\<open>date.toordinal()\<close>), so that a difference of two dates is its \<^verbatim>\<open>.days\<close>. The
  attribute \<^verbatim>\<open>i = interest_rate(reference_rate)\<close> wraps the same dictionary and is
  read through \<open>reference_rate\<close>. \<open>debt_status\<close> is \<open>None\<close> until \<^verbatim>\<open>status\<close> first
  assigns it: \<^verbatim>\<open>__init__\<close> does not create the attribute.

  Three things come from outside the module and are parameters of the model:
  \<^item> \<open>strptime\<close>: \<^verbatim>\<open>toDate(datetime.strptime(s, '%b %d %Y'))\<close> as a day number, \<open>None\<close>
    where the text does not parse (ValueError);
  \<^item> \<open>today\<close> and \<open>today_string\<close>: the clock, \<^verbatim>\<open>datetime.now()\<close>, as a day number and
    as formatted text;
  \<^item> \<open>cetes\<close>: the table \<^verbatim>\<open>getRiskFreeRate()\<close> fetched when the class was created.
\<close>

record payment =
  pid :: int
  date :: string
  amount :: real
  valid :: bool

record debt =
  payments :: "payment list"
  invalid_payments :: "int list"
  initial_date :: int
  final_date :: int
  actual_date :: int
  capital :: real
  reference_rate :: interest_rate
  final_capital :: real
  discount_rate :: interest_rate
  debt_status :: "string option"

text \<open>\<^verbatim>\<open>debt.__init__\<close>, lines 203 to 228.\<close>

definition debt_init ::
  "(int \<times> real) list \<Rightarrow> (string \<Rightarrow> int option) \<Rightarrow> int \<Rightarrow>
   string \<Rightarrow> string \<Rightarrow> real \<Rightarrow> interest_rate \<Rightarrow> int \<Rightarrow> error + debt" where
  "debt_init cetes strptime today initial_date_string final_date_string cap0 rate0 discount =
     (case strptime initial_date_string of
        None \<Rightarrow> Inl ValueError
      | Some d0 \<Rightarrow>
     (case strptime final_date_string of
        None \<Rightarrow> Inl ValueError
      | Some d1 \<Rightarrow>
          bindE (rate rate0 (PInt 360)) (\<lambda>daily.
          bindE (futureValue (Float cap0) daily (Float (of_int (d1 - d0)))) (\<lambda>fv.
          bindE (py_round2 fv) (\<lambda>fc.
          (case map_of cetes discount of
             None \<Rightarrow> Inl KeyError
           | Some c \<Rightarrow>
               if discount = 0 then Inl ZeroDivisionError
               else Inr \<lparr>payments = [], invalid_payments = [],
                          initial_date = d0, final_date = d1, actual_date = today,
                          capital = cap0, reference_rate = rate0, final_capital = fc,
                          discount_rate =
                            \<lparr>ref_rate = c / 100, ref_cap = 360 / of_int discount\<rparr>,
                          debt_status = None\<rparr>))))))"

text \<open>
  \<^verbatim>\<open>daysToGo\<close> (lines 230 to 240): the reference date defaults to the stored
  \<^verbatim>\<open>actual_date\<close>, is parsed when it is text, and is used as it is otherwise.
  \<^verbatim>\<open>discountRate\<close> (line 256) delegates to the discount rate object.
\<close>

datatype date_arg = NoDate | DateString string | DateObject int

definition daysToGo ::
  "(string \<Rightarrow> int option) \<Rightarrow> debt \<Rightarrow> date_arg \<Rightarrow> error + int" where
  "daysToGo strptime self ref_date =
     (case ref_date of
        NoDate \<Rightarrow> Inr (final_date self - actual_date self)
      | DateString s \<Rightarrow>
          (case strptime s of
             None \<Rightarrow> Inl ValueError
           | Some d \<Rightarrow> Inr (final_date self - d))
      | DateObject d \<Rightarrow> Inr (final_date self - d))"

definition discountRate :: "debt \<Rightarrow> cap_desc \<Rightarrow> error + pynum" where
  "discountRate self cap_desc = rate (discount_rate self) cap_desc"

text \<open>
  The payment list (lines 258 to 307). The loops over \<^verbatim>\<open>range(len(self.payments))\<close>
  update the list in place, index by index. \<^verbatim>\<open>resetPayments\<close> assigns
  \<^verbatim>\<open>self.payments = []\<close> and nothing else; \<^verbatim>\<open>resetInvalidPayments\<close> assigns
  \<^verbatim>\<open>self.invalid_payments = []\<close> and nothing else.
\<close>

definition registerPayment :: "string \<Rightarrow> debt \<Rightarrow> real \<Rightarrow> string \<Rightarrow> debt" where
  "registerPayment today_string self amount0 date0 =
     (let date1 = (if sublist ''now'' date0 then today_string else date0)
      in if length (payments self) = 0
         then self\<lparr>payments := payments self @
                 [\<lparr>pid = 1, date = date1, amount = amount0, valid = True\<rparr>]\<rparr>
         else (let new_id = pid (last (payments self)) + 1
               in self\<lparr>payments := payments self @
                    [\<lparr>pid = new_id, date = date1, amount = amount0, valid = True\<rparr>]\<rparr>))"

definition invalidPayments :: "debt \<Rightarrow> int \<Rightarrow> debt" where
  "invalidPayments self id0 =
     (let self1 = self\<lparr>invalid_payments := invalid_payments self @ [id0]\<rparr>
      in if length (payments self1) \<noteq> 0
         then self1\<lparr>payments :=
                fold (\<lambda>idx ps.
                        if pid (ps ! idx) \<in> set (invalid_payments self1)
                        then ps[idx := (ps ! idx)\<lparr>valid := False\<rparr>]
                        else ps)
                     [0..<length (payments self1)] (payments self1)\<rparr>
         else self1)"

definition deleteInvalidPayment :: "debt \<Rightarrow> int \<Rightarrow> debt" where
  "deleteInvalidPayment self id0 =
     (let ip = fold (\<lambda>i acc. if i \<noteq> id0 then acc @ [i] else acc)
                 (invalid_payments self) [];
          self1 =
            (if length (payments self) \<noteq> 0
             then self\<lparr>payments :=
                    fold (\<lambda>idx ps.
                            if pid (ps ! idx) = id0
                            then ps[idx := (ps ! idx)\<lparr>valid := True\<rparr>]
                            else ps)
                         [0..<length (payments self)] (payments self)\<rparr>
             else self)
      in self1\<lparr>invalid_payments := ip\<rparr>)"

definition resetInvalidPayments :: "debt \<Rightarrow> debt" where
  "resetInvalidPayments self = self\<lparr>invalid_payments := []\<rparr>"

definition resetPayments :: "debt \<Rightarrow> debt" where
  "resetPayments self = self\<lparr>payments := []\<rparr>"

text \<open>
  \<^verbatim>\<open>actualFinalDebt\<close> (lines 310 to 334). An empty payment list returns
  \<^verbatim>\<open>final_capital\<close> at once; otherwise the loop skips invalid payments, future-values
  each valid one to the final date at the daily discount rate, and the difference is
  floored at zero.
\<close>

fun total_loop ::
  "(string \<Rightarrow> int option) \<Rightarrow> debt \<Rightarrow> payment list \<Rightarrow> pynum \<Rightarrow> error + pynum" where
  "total_loop strptime self [] tot = Inr tot"
| "total_loop strptime self (p # ps) tot =
     (if \<not> valid p then total_loop strptime self ps tot
      else bindE (daysToGo strptime self (DateString (date p))) (\<lambda>delta.
           bindE (discountRate self (PStr ''daily'')) (\<lambda>dr.
           bindE (futureValue (Float (amount p)) dr (Float (of_int delta))) (\<lambda>future.
           total_loop strptime self ps (py_add tot future)))))"

definition actualFinalDebt :: "(string \<Rightarrow> int option) \<Rightarrow> debt \<Rightarrow> error + pynum" where
  "actualFinalDebt strptime self =
     (if length (payments self) = 0 then Inr (Float (final_capital self))
      else bindE (total_loop strptime self (payments self) (Float 0)) (\<lambda>tot.
           let actual_debt = py_sub (Float (final_capital self)) tot
           in bindE (py_lt actual_debt (Float 0)) (\<lambda>negative.
              if negative then Inr (Float 0) else Inr actual_debt)))"

definition actualPresentDebt :: "(string \<Rightarrow> int option) \<Rightarrow> debt \<Rightarrow> error + pynum" where
  "actualPresentDebt strptime self =
     bindE (actualFinalDebt strptime self) (\<lambda>afd.
     bindE (discountRate self (PStr ''daily'')) (\<lambda>dr.
     bindE (daysToGo strptime self NoDate) (\<lambda>days.
     presetValue afd dr (Float (of_int days)))))"

text \<open>
  \<^verbatim>\<open>simulate\<close> (lines 362 to 370) evaluates \<^verbatim>\<open>self.rate(cap_desc)\<close>. Neither the
  class \<^verbatim>\<open>debt\<close> nor its \<^verbatim>\<open>__init__\<close> binds an attribute \<^verbatim>\<open>rate\<close> (the rate object
  is \<^verbatim>\<open>self.i\<close>, and \<^verbatim>\<open>__init__\<close> itself calls \<^verbatim>\<open>self.i.rate(360)\<close>), so the
  attribute lookup raises AttributeError. The optional \<^verbatim>\<open>initial_capital\<close> is \<open>None\<close>
  when the caller leaves the default (a \<^verbatim>\<open>str\<close>), in which case \<^verbatim>\<open>self.capital\<close> is used.
\<close>

definition debt_getattr_rate :: "debt \<Rightarrow> error + (cap_desc \<Rightarrow> error + pynum)" where
  "debt_getattr_rate self = Inl AttributeError"

definition simulate :: "debt \<Rightarrow> pynum \<Rightarrow> cap_desc \<Rightarrow> real option \<Rightarrow> error + pynum" where
  "simulate self periods cap_desc initial_capital =
     (let initial_capital1 =
            (case initial_capital of None \<Rightarrow> capital self | Some c \<Rightarrow> c)
      in bindE (debt_getattr_rate self) (\<lambda>rate_method.
         bindE (rate_method cap_desc) (\<lambda>r.
         futureValue (Float initial_capital1) r periods)))"

text \<open>
  \<^verbatim>\<open>status\<close> (lines 392 to 408): three independent \<^verbatim>\<open>if\<close> statements assign
  \<^verbatim>\<open>self.debt_status\<close>, and the attribute is then read and returned. \<^verbatim>\<open>and\<close>
  evaluates its right operand only when the left one holds.
\<close>

definition status :: "(string \<Rightarrow> int option) \<Rightarrow> debt \<Rightarrow> error + (string \<times> debt)" where
  "status strptime self =
     bindE (daysToGo strptime self NoDate) (\<lambda>flag.
     bindE (actualFinalDebt strptime self) (\<lambda>a1.
     let self1 = (if py_eq a1 (Float 0)
                  then self\<lparr>debt_status := Some ''Done.''\<rparr> else self)
     in bindE (if flag < 0
               then bindE (actualFinalDebt strptime self1) (\<lambda>a2. py_gt a2 (Float 0))
               else Inr False) (\<lambda>overdue.
     let self2 = (if overdue
                  then self1\<lparr>debt_status := Some ''Overdue.''\<rparr> else self1)
     in bindE (if 0 < flag
               then bindE (actualFinalDebt strptime self2) (\<lambda>a3. py_gt a3 (Float 0))
               else Inr False) (\<lambda>active.
     let self3 = (if active
                  then self2\<lparr>debt_status := Some ''Active.''\<rparr> else self2)
     in (case debt_status self3 of
           None \<Rightarrow> Inl AttributeError
         | Some s \<Rightarrow> Inr (s, self3))))))"

section \<open>Class \<^verbatim>\<open>Bonds\<close>\<close>

text \<open>
  The constructor (lines 467 to 486) enriches the dictionary \<^verbatim>\<open>coupons\<close> with derived
  entries; \<open>coupon_interest_rate\<close> is its key \<^verbatim>\<open>'interest_rate'\<close> and \<open>coupon_value\<close> its
  key \<^verbatim>\<open>'value'\<close>. The attributes \<^verbatim>\<open>lsp\<close>, \<^verbatim>\<open>dirty_price\<close>, \<^verbatim>\<open>delayed_interest\<close>,
  \<^verbatim>\<open>clean_price\<close> and \<^verbatim>\<open>duration\<close> do not exist on a new object (\<open>None\<close>); each is
  created by the method that first assigns it.
\<close>

record coupons =
  delta_periods :: real
  coupon_interest_rate :: real
  coupon_value :: real
  pending_coupons :: real
  integer_coupons :: int
  float_coupons :: real

record Bonds =
  nominal_value :: real
  coupons :: coupons
  market_rate :: real
  passed_units :: real
  pending_units :: real
  lsp :: "pynum list option"
  dirty_price :: "pynum option"
  delayed_interest :: "real option"
  clean_price :: "pynum option"
  duration :: "pynum option"

definition Bonds_init :: "real \<Rightarrow> real \<Rightarrow> real \<Rightarrow> real \<Rightarrow> real \<Rightarrow> error + Bonds" where
  "Bonds_init nominal delta interest market time2maturity =
     (let v = nominal * delta * interest / 360
      in if delta = 0 then Inl ZeroDivisionError
         else (let pending = time2maturity / delta;
                   whole = py_int pending;
                   frac = pending - of_int whole
               in Inr \<lparr>nominal_value = nominal,
                       coupons = \<lparr>delta_periods = delta, coupon_interest_rate = interest,
                                  coupon_value = v, pending_coupons = pending,
                                  integer_coupons = whole, float_coupons = frac\<rparr>,
                       market_rate = market,
                       passed_units = delta * (1 - frac),
                       pending_units = frac * delta,
                       lsp = None, dirty_price = None, delayed_interest = None,
                       clean_price = None, duration = None\<rparr>))"

text \<open>
  \<^verbatim>\<open>dirtyPrice\<close> (lines 488 to 498) builds the list of discounted cash flows, stores it
  in \<^verbatim>\<open>self.lsp\<close> and adds one coupon when the fractional part of the pending coupons is
  not zero. \<^verbatim>\<open>cleanPrice\<close> (lines 500 to 508) calls \<^verbatim>\<open>dirtyPrice\<close> first.
\<close>

fun dirty_loop :: "Bonds \<Rightarrow> nat list \<Rightarrow> pynum list \<Rightarrow> error + pynum list" where
  "dirty_loop self [] present_value_list = Inr present_value_list"
| "dirty_loop self (i # rest) present_value_list =
     (let j = int i + 1
      in bindE (presetValue
                  (Float (if j \<noteq> integer_coupons (coupons self)
                          then coupon_value (coupons self)
                          else coupon_value (coupons self) + nominal_value self))
                  (Float (delta_periods (coupons self) * market_rate self / 360))
                  (Float (of_int j))) (\<lambda>pv.
         dirty_loop self rest (present_value_list @ [pv])))"

definition dirtyPrice :: "Bonds \<Rightarrow> error + (pynum \<times> Bonds)" where
  "dirtyPrice self =
     bindE (dirty_loop self [0..<nat (integer_coupons (coupons self))] []) (\<lambda>pvl.
     let self1 = self\<lparr>lsp := Some pvl\<rparr>;
         present_value = foldl py_add (Float 0) pvl
     in if float_coupons (coupons self1) = 0 then Inr (present_value, self1)
        else Inr (py_add present_value (Float (coupon_value (coupons self1))), self1))"

definition cleanPrice :: "Bonds \<Rightarrow> error + (pynum \<times> Bonds)" where
  "cleanPrice self =
     bindE (dirtyPrice self) (\<lambda>(dp, self0).
     let self1 = self0\<lparr>dirty_price := Some dp\<rparr>
     in if float_coupons (coupons self1) = 0 then Inr (dp, self1)
        else bindE (py_truediv (Float (pending_units self1))
                      (Float (delta_periods (coupons self1)))) (\<lambda>e.
             bindE (py_pow (Float (1 + delta_periods (coupons self1) * market_rate self1 / 360))
                      e) (\<lambda>p.
             bindE (py_truediv dp p) (\<lambda>value_at_passed.
             let di = nominal_value self1 * coupon_interest_rate (coupons self1)
                        * passed_units self1 / 360;
                 cp = py_sub value_at_passed (Float di)
             in Inr (cp, self1\<lparr>delayed_interest := Some di, clean_price := Some cp\<rparr>)))))"

text \<open>
  \<^verbatim>\<open>getDuration\<close> (lines 510 to 516) iterates over \<^verbatim>\<open>self.lsp\<close> first and calls
  \<^verbatim>\<open>cleanPrice\<close> afterwards; \<^verbatim>\<open>getSensibility\<close> (lines 518 to 519) divides its result.
\<close>

fun duration_loop :: "Bonds \<Rightarrow> pynum list \<Rightarrow> pynum \<Rightarrow> int \<Rightarrow> error + pynum" where
  "duration_loop self [] dur c = Inr dur"
| "duration_loop self (i # rest) dur c =
     bindE (py_truediv (py_mul (Float (of_int c * delta_periods (coupons self))) i)
              (Float 360)) (\<lambda>contribution.
     duration_loop self rest (py_add dur contribution) (c + 1))"

definition getDuration :: "Bonds \<Rightarrow> error + (pynum \<times> Bonds)" where
  "getDuration self =
     (case lsp self of
        None \<Rightarrow> Inl AttributeError
      | Some pvl \<Rightarrow>
          bindE (duration_loop self pvl (Float 0) 1) (\<lambda>dur.
          bindE (cleanPrice self) (\<lambda>(cp, self1).
          bindE (py_truediv dur cp) (\<lambda>d.
          Inr (d, self1\<lparr>duration := Some d\<rparr>)))))"

definition getSensibility :: "Bonds \<Rightarrow> error + (pynum \<times> Bonds)" where
  "getSensibility self =
     bindE (getDuration self) (\<lambda>(d, self1).
     bindE (py_truediv d (Float (1 + market_rate self1))) (\<lambda>s.
     Inr (s, self1)))"

section \<open>Specification-level definitions\<close>

text \<open>
  The outstanding balance in the words of the specification: the final capital less the
  sum, over the valid payments, of each amount future-valued at the daily rate \<open>dr\<close>
  over the days from its date to maturity, floored at zero. The number of days is an
  integer, so the compounding factor is an integer power.
\<close>

definition outstandingBalance_spec :: "(string \<Rightarrow> int option) \<Rightarrow> debt \<Rightarrow> real \<Rightarrow> real" where
  "outstandingBalance_spec strptime self dr =
     max 0 (final_capital self -
       (\<Sum>p\<leftarrow>filter valid (payments self).
          case strptime (date p) of
            None \<Rightarrow> 0
          | Some d \<Rightarrow> amount p * (1 + dr) powi (final_date self - d)))"

text \<open>
  Invalidating every payment of a ledger by its id, one call of \<^verbatim>\<open>invalidPayments\<close>
  per payment in list order, and restoring a list of ids, one call of
  \<^verbatim>\<open>deleteInvalidPayment\<close> per id.
\<close>

definition invalidate_every :: "debt \<Rightarrow> debt" where
  "invalidate_every self = foldl invalidPayments self (map pid (payments self))"

definition restore_every :: "int list \<Rightarrow> debt \<Rightarrow> debt" where
  "restore_every ids self = foldl deleteInvalidPayment self ids"

section \<open>Example objects\<close>

text \<open>
  A date parser that knows three texts (with their day numbers), a risk-free table in
  percent, and the ledger \<^verbatim>\<open>debt('Jan 01 2024', 'Jan 01 2025', 2000, {'rate': 0, 'cap': 12})\<close>
  created on its maturity date, Jan 01 2025. With the 28-day rate at 9 percent the daily
  discount factor is the 28th root of 1.007.
\<close>

definition example_strptime :: "string \<Rightarrow> int option" where
  "example_strptime s =
     map_of [(''Jan 01 2024'', 738886), (''Dec 04 2024'', 739224),
             (''Jan 01 2025'', 739252)] s"

definition example_cetes :: "(int \<times> real) list" where
  "example_cetes = [(28, 9), (91, 92 / 10), (182, 95 / 10)]"

definition example_debt :: debt where
  "example_debt =
     \<lparr>payments = [], invalid_payments = [],
      initial_date = 738886, final_date = 739252, actual_date = 739252,
      capital = 2000, reference_rate = \<lparr>ref_rate = 0, ref_cap = 12\<rparr>,
      final_capital = 2000,
      discount_rate = \<lparr>ref_rate = 9 / 100, ref_cap = 360 / 28\<rparr>,
      debt_status = None\<rparr>"

text \<open>
  Ledgers reached from it: one valid payment; a valid payment and an invalidated one;
  the latter with a further payment of 1500 on the maturity date; a payment whose date
  text does not parse; the same constructor call with a negative principal; and a ledger
  whose discount rate makes the daily rate -1, with a payment dated after its maturity.
\<close>

definition example_one :: debt where
  "example_one = registerPayment ''Jan 01 2025'' example_debt 1000 ''Dec 04 2024''"

definition example_paid :: debt where
  "example_paid =
     invalidPayments
       (registerPayment ''Jan 01 2025''
          (registerPayment ''Jan 01 2025'' example_debt 1000 ''Dec 04 2024'') 500 ''now'') 2"

definition example_overpaid :: debt where
  "example_overpaid = registerPayment ''Jan 01 2025'' example_paid 1500 ''now''"

definition example_undated :: debt where
  "example_undated = registerPayment ''Jan 01 2025'' example_debt 50 ''tomorrow''"

definition example_negative :: debt where
  "example_negative = example_debt\<lparr>capital := - 100, final_capital := - 100\<rparr>"

definition example_late :: debt where
  "example_late =
     registerPayment ''Jan 01 2025''
       (example_debt\<lparr>final_date := 739224,
                      discount_rate := \<lparr>ref_rate = - (360 / 28), ref_cap = 360 / 28\<rparr>\<rparr>)
       50 ''Jan 01 2025''"

text \<open>
  The default arguments of the two other constructors:
  \<^verbatim>\<open>interest_rate()\<close> and \<^verbatim>\<open>Bonds()\<close>, and the state the latter builds.
\<close>

definition default_rate :: interest_rate where
  "default_rate = \<lparr>ref_rate = 12 / 100, ref_cap = 12\<rparr>"

definition default_bond :: "error + Bonds" where
  "default_bond = Bonds_init 100 182 (82 / 1000) (85 / 1000) 100"

definition default_bond_state :: Bonds where
  "default_bond_state =
     \<lparr>nominal_value = 100,
      coupons = \<lparr>delta_periods = 182, coupon_interest_rate = 82 / 1000,
                 coupon_value = 100 * 182 * (82 / 1000) / 360,
                 pending_coupons = 100 / 182, integer_coupons = 0,
                 float_coupons = 100 / 182\<rparr>,
      market_rate = 85 / 1000, passed_units = 182 * (1 - 100 / 182),
      pending_units = 100 / 182 * 182,
      lsp = None, dirty_price = None, delayed_interest = None,
      clean_price = None, duration = None\<rparr>"

section \<open>Lemmas on the value model\<close>

lemma bindE_Inl [simp]: "bindE (Inl e) f = Inl e"
  by (simp add: bindE_def)

lemma bindE_Inr [simp]: "bindE (Inr x) f = f x"
  by (simp add: bindE_def)

text \<open>An integer exponent keeps a non-zero real base real, whatever its sign.\<close>

lemma py_pow_int:
  assumes "x \<noteq> 0"
  shows "py_pow (Float x) (Float (of_int n)) = Inr (Float (x powi n))"
proof (cases "x < 0")
  case True
  then show ?thesis by simp
next
  case False
  with assms have "0 < x" by simp
  then have "x powr real_of_int n = x powi n"
    by (simp add: powr_real_of_int')
  with \<open>0 < x\<close> show ?thesis by simp
qed

lemma py_pow_nonneg_int:
  assumes "0 \<le> n"
  shows "py_pow (Float x) (Float (of_int n)) = Inr (Float (x powi n))"
proof (cases "x = 0")
  case True
  with assms show ?thesis by (cases "n = 0") simp_all
next
  case False
  then show ?thesis by (rule py_pow_int)
qed

lemma Arg_neg_real: "x < 0 \<Longrightarrow> Arg (complex_of_real x) = pi"
  by (rule cis_Arg_unique) (simp_all add: sgn_eq complex_eq_iff)

lemma Arg_minus_one: "Arg (- 1) = pi"
  using Arg_neg_real [of "- 1"] by simp

section \<open>Rate conversion\<close>

lemma equivalentRate_real:
  assumes "cap \<noteq> 0" "new_cap \<noteq> 0" "0 < 1 + r / cap"
  shows "equivalentRate (Float r) (Float cap) (Float new_cap) =
         Inr (Float (new_cap * ((1 + r / cap) powr (cap / new_cap) - 1)))"
  using assms by (simp add: equivalentRate_def)

lemma div_freq_gt_minus_one:
  fixes r a :: real
  assumes "- 1 < r" "1 \<le> a"
  shows "0 < 1 + r / a"
proof (cases "0 \<le> r")
  case True
  with assms have "0 \<le> r / a" by simp
  then show ?thesis by linarith
next
  case False
  with assms have "r \<le> r / a"
    by (simp add: pos_le_divide_eq mult_le_cancel_left1)
  with assms show ?thesis by linarith
qed

lemma equivalentRate_inverse_real:
  fixes r a b :: real
  assumes a: "0 < a" and b: "0 < b" and x: "0 < 1 + r / a"
  shows "bindE (equivalentRate (Float r) (Float a) (Float b))
           (\<lambda>r'. equivalentRate r' (Float b) (Float a)) = Inr (Float r)"
proof -
  let ?x = "1 + r / a"
  let ?y = "?x powr (a / b)"
  have y: "0 < ?y" using x by simp
  have rt: "1 + b * (?y - 1) / b = ?y" using b by simp
  have "?y powr (b / a) = ?x powr 1"
    using a b by (simp add: powr_powr)
  then have pw: "?y powr (b / a) = ?x" using x by simp
  have first: "equivalentRate (Float r) (Float a) (Float b) = Inr (Float (b * (?y - 1)))"
    using a b x by (simp add: equivalentRate_real)
  have "equivalentRate (Float (b * (?y - 1))) (Float b) (Float a) =
        Inr (Float (a * ((1 + b * (?y - 1) / b) powr (b / a) - 1)))"
  proof (rule equivalentRate_real)
    show "b \<noteq> 0" using b by simp
    show "a \<noteq> 0" using a by simp
    show "0 < 1 + b * (?y - 1) / b" using y by (simp only: rt)
  qed
  also have "\<dots> = Inr (Float (a * (?x - 1)))"
    by (simp only: rt pw)
  also have "\<dots> = Inr (Float r)" using a by simp
  finally show ?thesis by (simp add: first)
qed

text \<open>
  C6. For every rate \<open>r > -1\<close> and all positive compounding frequencies \<open>f1\<close>, \<open>f2\<close>
  (numbers of periods per year, positive integers), converting \<open>r\<close> from \<open>f1\<close> to \<open>f2\<close>
  with \<open>equivalentRate\<close> and converting the result back from \<open>f2\<close> to \<open>f1\<close> raises
  nothing and returns exactly \<open>r\<close>, as a real number.
\<close>

theorem equivalentRate_round_trip:
  fixes f1 f2 :: int and r :: real
  assumes "- 1 < r" "0 < f1" "0 < f2"
  shows "bindE (equivalentRate (Float r) (Float (of_int f1)) (Float (of_int f2)))
           (\<lambda>r'. equivalentRate r' (Float (of_int f2)) (Float (of_int f1))) = Inr (Float r)"
proof -
  have a: "1 \<le> real_of_int f1" and b: "0 < real_of_int f2" using assms by simp_all
  have "0 < 1 + r / real_of_int f1"
    using assms(1) a by (rule div_freq_gt_minus_one)
  with a b show ?thesis by (intro equivalentRate_inverse_real) simp_all
qed

text \<open>C6 at the rate 12 percent, from monthly to daily compounding and back.\<close>

theorem equivalentRate_round_trip_witness:
  "bindE (equivalentRate (Float (12 / 100)) (Float 12) (Float 360))
     (\<lambda>r'. equivalentRate r' (Float 360) (Float 12)) = Inr (Float (12 / 100))"
  using equivalentRate_round_trip [of "12 / 100" 12 360] by simp

text \<open>
  C8, as the code has it. \<open>annualInterest\<close> raises ZeroDivisionError when the initial
  capital is zero or the number of years is zero, and it validates nothing else: whenever
  both are non-zero and the quotient of final by initial capital is positive (so also for
  two negative capitals) it returns the real number \<open>(final / initial) powr (1 / years) - 1\<close>.
\<close>

theorem annualInterest_domain:
  fixes ic ec y :: real
  shows "(ic = 0 \<or> y = 0 \<longrightarrow>
            annualInterest (Float ic) (Float ec) (Float y) = Inl ZeroDivisionError) \<and>
         (ic \<noteq> 0 \<and> y \<noteq> 0 \<and> 0 < ec / ic \<longrightarrow>
            annualInterest (Float ic) (Float ec) (Float y) =
              Inr (Float ((ec / ic) powr (1 / y) - 1)))"
  by (auto simp: annualInterest_def)

text \<open>C8 at initial capital 0, at 0 years, and at 100 growing to 150 in one year.\<close>

theorem annualInterest_domain_witness:
  "annualInterest (Float 0) (Float 150) (Float 2) = Inl ZeroDivisionError \<and>
   annualInterest (Float 100) (Float 150) (Float 0) = Inl ZeroDivisionError \<and>
   annualInterest (Float 100) (Float 150) (Float 1) = Inr (Float (1 / 2))"
  using annualInterest_domain [of 0 2 150] annualInterest_domain [of 100 0 150]
    annualInterest_domain [of 100 1 150]
  by simp

text \<open>
  C8 as stated fails: a negative initial capital is not rejected. From -100 to -150 in one
  year the result is the number 1/2; from -1 to 1 in two years it is the complex number
  \<open>\<i> - 1\<close>; and a positive initial capital with final capital 0 and -1 year raises.
\<close>

theorem annualInterest_negative_initial:
  "annualInterest (Float (- 100)) (Float (- 150)) (Float 1) = Inr (Float (1 / 2)) \<and>
   annualInterest (Float (- 1)) (Float 1) (Float 2) = Inr (Cplx (\<i> - 1)) \<and>
   annualInterest (Float 100) (Float 0) (Float (- 1)) = Inl ZeroDivisionError"
  by (simp add: annualInterest_def complex_pow_def Arg_minus_one rcis_def cis_pi_half)

section \<open>The continuous target of an interest rate\<close>

text \<open>
  On \<^verbatim>\<open>'cont'\<close> the method \<^verbatim>\<open>rate\<close> returns what \<^verbatim>\<open>annualRate\<close> returns, undivided;
  and \<^verbatim>\<open>annualRate\<close> raises NameError for every rate object.
\<close>

lemma rate_cont_is_annualRate: "rate self (PStr ''cont'') = annualRate self (PStr ''cont'')"
  by (simp add: rate_def cap_options_def)

lemma annualRate_cont: "annualRate self (PStr ''cont'') = Inl NameError"
  by (simp add: annualRate_def cap_options_def contEquivalentRate_def)

text \<open>
  C1 on the code. The claim expects \<open>f * ln (1 + r / f)\<close> from both methods on the
  continuous target. For the default rate object (12 percent, monthly) both raise
  NameError: the helper they call is not defined.
\<close>

theorem annualRate_cont_NameError:
  "annualRate default_rate (PStr ''cont'') = Inl NameError \<and>
   rate default_rate (PStr ''cont'') = Inl NameError"
  by (simp add: rate_def annualRate_def cap_options_def contEquivalentRate_def)

section \<open>The payment list\<close>

text \<open>
  A loop that visits every index once and rewrites the element it finds there is a map.
\<close>

lemma fold_index_prefix:
  assumes "n \<le> length xs"
  shows "fold (\<lambda>idx ps. if P (ps ! idx) then ps[idx := f (ps ! idx)] else ps) [0..<n] xs =
         map (\<lambda>p. if P p then f p else p) (take n xs) @ drop n xs"
  using assms
proof (induction n)
  case 0
  then show ?case by simp
next
  case (Suc n)
  let ?g = "\<lambda>p. if P p then f p else p"
  let ?ys = "map ?g (take n xs) @ drop n xs"
  from Suc.prems have n: "n < length xs" by simp
  have nth: "?ys ! n = xs ! n"
    using n by (simp add: nth_append)
  have upd: "?ys[n := ?g (xs ! n)] = map ?g (take (Suc n) xs) @ drop (Suc n) xs"
    using n by (simp add: list_update_append take_Suc_conv_app_nth upd_conv_take_nth_drop)
  have same: "?ys[n := xs ! n] = ?ys"
    using nth by (metis list_update_id)
  have "fold (\<lambda>idx ps. if P (ps ! idx) then ps[idx := f (ps ! idx)] else ps) [0..<Suc n] xs =
        (if P (?ys ! n) then ?ys[n := f (?ys ! n)] else ?ys)"
    using Suc.IH n by simp
  also have "\<dots> = ?ys[n := ?g (xs ! n)]"
    using same by (simp add: nth)
  finally show ?case using upd by simp
qed

lemma fold_index_map:
  "fold (\<lambda>idx ps. if P (ps ! idx) then ps[idx := f (ps ! idx)] else ps) [0..<length xs] xs =
   map (\<lambda>p. if P p then f p else p) xs"
  using fold_index_prefix [of "length xs" xs P f] by simp

lemma fold_keep_filter:
  "fold (\<lambda>i acc. if Q i then acc @ [i] else acc) xs acc0 = acc0 @ filter Q xs"
  by (induction xs arbitrary: acc0) simp_all

lemma invalidPayments_eq:
  "invalidPayments self id0 =
     self\<lparr>invalid_payments := invalid_payments self @ [id0],
          payments := map (\<lambda>p. if pid p \<in> set (invalid_payments self @ [id0])
                                then p\<lparr>valid := False\<rparr> else p) (payments self)\<rparr>"
  using fold_index_map [of "\<lambda>p. pid p \<in> set (invalid_payments self @ [id0])"
      "\<lambda>p. p\<lparr>valid := False\<rparr>" "payments self"]
  by (cases "payments self = []") (simp_all add: invalidPayments_def Let_def)

lemma deleteInvalidPayment_eq:
  "deleteInvalidPayment self id0 =
     self\<lparr>payments := map (\<lambda>p. if pid p = id0 then p\<lparr>valid := True\<rparr> else p) (payments self),
          invalid_payments := filter (\<lambda>i. i \<noteq> id0) (invalid_payments self)\<rparr>"
  using fold_index_map [of "\<lambda>p. pid p = id0" "\<lambda>p. p\<lparr>valid := True\<rparr>" "payments self"]
  by (cases "payments self = []")
     (simp_all add: deleteInvalidPayment_def Let_def fold_keep_filter)

lemma foldl_invalidPayments:
  "ids \<noteq> [] \<Longrightarrow>
   foldl invalidPayments self ids =
     self\<lparr>invalid_payments := invalid_payments self @ ids,
          payments := map (\<lambda>p. if pid p \<in> set (invalid_payments self @ ids)
                                then p\<lparr>valid := False\<rparr> else p) (payments self)\<rparr>"
proof (induction ids rule: rev_induct)
  case Nil
  then show ?case by simp
next
  case (snoc x xs)
  show ?case
  proof (cases "xs = []")
    case True
    then show ?thesis by (simp add: invalidPayments_eq)
  next
    case False
    with snoc.IH show ?thesis
      by (simp add: invalidPayments_eq comp_def cong: if_cong) 
  qed
qed

lemma foldl_deleteInvalidPayment:
  "foldl deleteInvalidPayment self ids =
     self\<lparr>payments := map (\<lambda>p. if pid p \<in> set ids then p\<lparr>valid := True\<rparr> else p)
                          (payments self),
          invalid_payments := filter (\<lambda>i. i \<notin> set ids) (invalid_payments self)\<rparr>"
proof (induction ids rule: rev_induct)
  case Nil
  then show ?case by simp
next
  case (snoc x xs)
  then show ?case
    by (simp add: deleteInvalidPayment_eq comp_def conj_commute cong: if_cong)
qed

lemma payments_invalidate_every:
  "payments (invalidate_every self) = map (\<lambda>p. p\<lparr>valid := False\<rparr>) (payments self)"
proof (cases "payments self = []")
  case True
  then show ?thesis by (simp add: invalidate_every_def)
next
  case False
  then have "map pid (payments self) \<noteq> []" by simp
  then show ?thesis
    by (simp add: invalidate_every_def foldl_invalidPayments)
qed

lemma payments_restore_invalidate:
  "payments (restore_every (map pid (payments self)) (invalidate_every self)) =
   map (\<lambda>p. p\<lparr>valid := True\<rparr>) (payments self)"
  by (simp add: restore_every_def foldl_deleteInvalidPayment payments_invalidate_every comp_def)

lemma invalidate_every_frame:
  "final_capital (invalidate_every self) = final_capital self"
  "final_date (invalidate_every self) = final_date self"
  "discount_rate (invalidate_every self) = discount_rate self"
  by (cases "payments self = []";
      simp add: invalidate_every_def foldl_invalidPayments)+

lemma restore_every_frame:
  "final_capital (restore_every ids self) = final_capital self"
  "final_date (restore_every ids self) = final_date self"
  "discount_rate (restore_every ids self) = discount_rate self"
  by (simp_all add: restore_every_def foldl_deleteInvalidPayment)

section \<open>The outstanding balance\<close>

lemma futureValue_int_periods:
  assumes "dr \<noteq> - 1"
  shows "futureValue (Float a) (Float dr) (Float (of_int n)) =
         Inr (Float (a * (1 + dr) powi n))"
proof -
  from assms have "1 + dr \<noteq> 0" by linarith
  then have "py_pow (Float (1 + dr)) (Float (of_int n)) = Inr (Float ((1 + dr) powi n))"
    by (rule py_pow_int)
  then show ?thesis by (simp add: futureValue_def del: py_pow.simps)
qed

lemma total_loop_sum:
  assumes "discountRate self (PStr ''daily'') = Inr (Float dr)" "dr \<noteq> - 1"
    and "list_all (\<lambda>p. valid p \<longrightarrow> strptime (date p) \<noteq> None) ps"
  shows "total_loop strptime self ps (Float t) =
         Inr (Float (t + (\<Sum>p\<leftarrow>filter valid ps.
                case strptime (date p) of
                  None \<Rightarrow> 0
                | Some d \<Rightarrow> amount p * (1 + dr) powi (final_date self - d))))"
  using assms(3)
proof (induction ps arbitrary: t)
  case Nil
  then show ?case by simp
next
  case (Cons p ps)
  show ?case
  proof (cases "valid p")
    case False
    with Cons show ?thesis by simp
  next
    case True
    with Cons.prems obtain d where d: "strptime (date p) = Some d" by auto
    from Cons.prems have rest: "list_all (\<lambda>p. valid p \<longrightarrow> strptime (date p) \<noteq> None) ps"
      by simp
    show ?thesis
      using True d assms(1,2) Cons.IH [OF rest]
      by (simp add: daysToGo_def futureValue_int_periods add.assoc)
  qed
qed

text \<open>
  The same sum when no valid payment is dated after maturity: the exponents are then not
  negative, and the daily rate may be any real number, -1 included.
\<close>

lemma futureValue_on_time:
  assumes "0 \<le> n"
  shows "futureValue (Float a) (Float dr) (Float (of_int n)) =
         Inr (Float (a * (1 + dr) powi n))"
proof -
  have "py_pow (Float (1 + dr)) (Float (of_int n)) = Inr (Float ((1 + dr) powi n))"
    using assms by (rule py_pow_nonneg_int)
  then show ?thesis by (simp add: futureValue_def del: py_pow.simps)
qed

lemma total_loop_sum_on_time:
  assumes "discountRate self (PStr ''daily'') = Inr (Float dr)"
    and "list_all (\<lambda>p. valid p \<longrightarrow> strptime (date p) \<noteq> None) ps"
    and "list_all (\<lambda>p. valid p \<longrightarrow>
           (case strptime (date p) of None \<Rightarrow> True | Some d \<Rightarrow> d \<le> final_date self)) ps"
  shows "total_loop strptime self ps (Float t) =
         Inr (Float (t + (\<Sum>p\<leftarrow>filter valid ps.
                case strptime (date p) of
                  None \<Rightarrow> 0
                | Some d \<Rightarrow> amount p * (1 + dr) powi (final_date self - d))))"
  using assms(2,3)
proof (induction ps arbitrary: t)
  case Nil
  then show ?case by simp
next
  case (Cons p ps)
  show ?case
  proof (cases "valid p")
    case False
    with Cons show ?thesis by simp
  next
    case True
    with Cons.prems obtain d where d: "strptime (date p) = Some d" by auto
    with True Cons.prems have days: "0 \<le> final_date self - d" by simp
    from Cons.prems have rest:
      "list_all (\<lambda>p. valid p \<longrightarrow> strptime (date p) \<noteq> None) ps"
      "list_all (\<lambda>p. valid p \<longrightarrow>
           (case strptime (date p) of None \<Rightarrow> True | Some d \<Rightarrow> d \<le> final_date self)) ps"
      by simp_all
    show ?thesis
      using True d assms(1) Cons.IH [OF rest] futureValue_on_time [OF days]
      by (simp add: daysToGo_def add.assoc)
  qed
qed

lemma total_loop_all_invalid:
  "list_all (\<lambda>p. \<not> valid p) ps \<Longrightarrow> total_loop strptime self ps tot = Inr tot"
  by (induction ps) simp_all

lemma total_loop_cong:
  assumes "final_date a = final_date b" "discount_rate a = discount_rate b"
  shows "total_loop strptime a ps tot = total_loop strptime b ps tot"
  using assms
  by (induction ps arbitrary: tot)
     (simp_all add: daysToGo_def discountRate_def split: option.splits)

lemma actualFinalDebt_cong:
  assumes "payments a = payments b" "final_capital a = final_capital b"
    "final_date a = final_date b" "discount_rate a = discount_rate b"
  shows "actualFinalDebt strptime a = actualFinalDebt strptime b"
  using assms total_loop_cong [OF assms(3,4)]
  by (simp add: actualFinalDebt_def)

lemma actualFinalDebt_nonempty:
  assumes "discountRate self (PStr ''daily'') = Inr (Float dr)" "dr \<noteq> - 1"
    and "list_all (\<lambda>p. valid p \<longrightarrow> strptime (date p) \<noteq> None) (payments self)"
    and "payments self \<noteq> []"
  shows "actualFinalDebt strptime self = Inr (Float (outstandingBalance_spec strptime self dr))"
proof -
  have "total_loop strptime self (payments self) (Float 0) =
        Inr (Float (0 + (\<Sum>p\<leftarrow>filter valid (payments self).
                case strptime (date p) of
                  None \<Rightarrow> 0
                | Some d \<Rightarrow> amount p * (1 + dr) powi (final_date self - d))))"
    using assms(1-3) by (rule total_loop_sum)
  with assms(4) show ?thesis
    by (simp add: actualFinalDebt_def outstandingBalance_spec_def Let_def max_def)
qed

subsection \<open>The example ledgers\<close>

lemma rate_zero: "rate \<lparr>ref_rate = 0, ref_cap = 12\<rparr> (PInt 360) = Inr (Float 0)"
  by (simp add: rate_def annualRate_def equivalentRate_def)

lemma example_debt_init:
  "debt_init example_cetes example_strptime 739252 ''Jan 01 2024'' ''Jan 01 2025'' 2000
     \<lparr>ref_rate = 0, ref_cap = 12\<rparr> 28 = Inr example_debt"
  by (simp add: debt_init_def example_strptime_def example_cetes_def rate_zero
      futureValue_def round_half_even_def example_debt_def)

lemma no_now_1: "\<not> sublist ''now'' ''Dec 04 2024''"
  by code_simp

lemma no_now_2: "\<not> sublist ''now'' ''Jan 01 2025''"
  by code_simp

lemma no_now_3: "\<not> sublist ''now'' ''tomorrow''"
  by code_simp

lemma example_one_eq:
  "example_one = example_debt
     \<lparr>payments := [\<lparr>pid = 1, date = ''Dec 04 2024'', amount = 1000, valid = True\<rparr>]\<rparr>"
  by (simp add: example_one_def registerPayment_def example_debt_def no_now_1)

lemma example_paid_eq:
  "example_paid = example_debt
     \<lparr>payments := [\<lparr>pid = 1, date = ''Dec 04 2024'', amount = 1000, valid = True\<rparr>,
                    \<lparr>pid = 2, date = ''Jan 01 2025'', amount = 500, valid = False\<rparr>],
      invalid_payments := [2]\<rparr>"
  by (simp add: example_paid_def invalidPayments_eq registerPayment_def example_debt_def no_now_1)

lemma example_overpaid_eq:
  "example_overpaid = example_debt
     \<lparr>payments := [\<lparr>pid = 1, date = ''Dec 04 2024'', amount = 1000, valid = True\<rparr>,
                    \<lparr>pid = 2, date = ''Jan 01 2025'', amount = 500, valid = False\<rparr>,
                    \<lparr>pid = 3, date = ''Jan 01 2025'', amount = 1500, valid = True\<rparr>],
      invalid_payments := [2]\<rparr>"
  by (simp add: example_overpaid_def example_paid_eq registerPayment_def example_debt_def)

lemma example_late_eq:
  "example_late = example_debt
     \<lparr>final_date := 739224,
      discount_rate := \<lparr>ref_rate = - (360 / 28), ref_cap = 360 / 28\<rparr>,
      payments := [\<lparr>pid = 1, date = ''Jan 01 2025'', amount = 50, valid = True\<rparr>]\<rparr>"
  by (simp add: example_late_def registerPayment_def example_debt_def no_now_2)

lemma example_daily:
  "discountRate example_debt (PStr ''daily'') = Inr (Float ((1007 / 1000) powr (1 / 28) - 1))"
  by (simp add: discountRate_def example_debt_def rate_def annualRate_def cap_options_def
      equivalentRate_def)

lemma root28_power:
  assumes "0 < (x::real)"
  shows "(x powr (1 / 28)) ^ 28 = x"
proof -
  have "(x powr (1 / 28)) ^ 28 = (x powr (1 / 28)) powr 28"
    by simp
  also have "\<dots> = x powr 1"
    by (simp only: powr_powr) simp
  finally show ?thesis using assms by simp
qed

lemma example_paid_daily:
  "discountRate example_paid (PStr ''daily'') = Inr (Float ((1007 / 1000) powr (1 / 28) - 1))"
  using example_daily by (simp add: example_paid_eq discountRate_def)

lemma example_daily_ne: "(1007 / 1000) powr (1 / 28) - 1 \<noteq> (- 1 :: real)"
proof -
  have "0 < (1007 / 1000) powr (1 / 28 :: real)" by simp
  then show ?thesis by linarith
qed

lemma example_paid_spec:
  "outstandingBalance_spec example_strptime example_paid ((1007 / 1000) powr (1 / 28) - 1) = 993"
  using root28_power [of "1007 / 1000"]
  by (simp add: outstandingBalance_spec_def example_paid_eq example_strptime_def
      example_debt_def)

lemma example_overpaid_spec:
  "outstandingBalance_spec example_strptime example_overpaid
     ((1007 / 1000) powr (1 / 28) - 1) = 0"
  using root28_power [of "1007 / 1000"]
  by (simp add: outstandingBalance_spec_def example_overpaid_eq example_strptime_def
      example_debt_def)

lemma example_paid_balance:
  "actualFinalDebt example_strptime example_paid = Inr (Float 993)"
proof -
  have "actualFinalDebt example_strptime example_paid =
        Inr (Float (outstandingBalance_spec example_strptime example_paid
                      ((1007 / 1000) powr (1 / 28) - 1)))"
    using example_paid_daily example_daily_ne
    by (rule actualFinalDebt_nonempty) (simp_all add: example_paid_eq example_strptime_def)
  then show ?thesis by (simp only: example_paid_spec)
qed

subsection \<open>The balance formula\<close>

text \<open>
  C3. For every debt ledger on which the claim's formula has a value, \<open>actualFinalDebt\<close>
  raises nothing and returns the final capital less the sum, over the valid payments, of
  each amount future-valued at the daily discount rate over the days from its date to
  maturity, floored at zero. In particular a ledger with no payment returns its final
  capital, and a negative net amount is returned as exactly 0. The formula has a value
  when: the daily discount rate is a real number \<open>dr\<close>; the date of every valid payment
  parses; the compounding factor \<open>(1 + dr) ^ days\<close> is defined, that is \<open>dr\<close> is not -1 or
  no valid payment is dated after maturity; and the final capital is not negative, which
  the clause on a ledger with no payment presupposes (it is needed for that ledger only).
\<close>

theorem actualFinalDebt_formula:
  assumes daily: "discountRate self (PStr ''daily'') = Inr (Float dr)"
    and dates: "list_all (\<lambda>p. valid p \<longrightarrow> strptime (date p) \<noteq> None) (payments self)"
    and factor: "dr \<noteq> - 1 \<or>
       list_all (\<lambda>p. valid p \<longrightarrow>
         (case strptime (date p) of None \<Rightarrow> True | Some d \<Rightarrow> d \<le> final_date self))
         (payments self)"
    and nonneg: "0 \<le> final_capital self \<or> payments self \<noteq> []"
  shows "actualFinalDebt strptime self =
           Inr (Float (outstandingBalance_spec strptime self dr)) \<and>
         (payments self = [] \<longrightarrow>
            actualFinalDebt strptime self = Inr (Float (final_capital self))) \<and>
         (final_capital self -
            (\<Sum>p\<leftarrow>filter valid (payments self).
               case strptime (date p) of
                 None \<Rightarrow> 0
               | Some d \<Rightarrow> amount p * (1 + dr) powi (final_date self - d)) < 0 \<longrightarrow>
            actualFinalDebt strptime self = Inr (Float 0))"
proof -
  let ?paid = "\<Sum>p\<leftarrow>filter valid (payments self).
                 case strptime (date p) of
                   None \<Rightarrow> 0
                 | Some d \<Rightarrow> amount p * (1 + dr) powi (final_date self - d)"
  have loop: "total_loop strptime self (payments self) (Float 0) = Inr (Float (0 + ?paid))"
    using factor
  proof
    assume "dr \<noteq> - 1"
    with daily show ?thesis using dates by (rule total_loop_sum)
  next
    assume "list_all (\<lambda>p. valid p \<longrightarrow>
         (case strptime (date p) of None \<Rightarrow> True | Some d \<Rightarrow> d \<le> final_date self))
         (payments self)"
    with daily dates show ?thesis by (rule total_loop_sum_on_time)
  qed
  have main: "actualFinalDebt strptime self =
              Inr (Float (outstandingBalance_spec strptime self dr))"
  proof (cases "payments self = []")
    case True
    with nonneg show ?thesis
      by (simp add: actualFinalDebt_def outstandingBalance_spec_def)
  next
    case False
    with loop show ?thesis
      by (simp add: actualFinalDebt_def outstandingBalance_spec_def Let_def max_def)
  qed
  have empty: "payments self = [] \<longrightarrow>
                actualFinalDebt strptime self = Inr (Float (final_capital self))"
    by (simp add: actualFinalDebt_def)
  have floor0: "final_capital self - ?paid < 0 \<longrightarrow>
                actualFinalDebt strptime self = Inr (Float 0)"
    using main by (simp add: outstandingBalance_spec_def max_def)
  from main empty floor0 show ?thesis by (intro conjI)
qed

text \<open>
  C3 on three ledgers: no payment (balance 2000, the final capital); a valid payment of
  1000 made 28 days before maturity and an invalidated one of 500 (balance
  2000 - 1007 = 993); and the same with 1500 more paid on the maturity date (net amount
  -507, balance 0).
\<close>

theorem actualFinalDebt_formula_witness:
  "actualFinalDebt example_strptime example_debt = Inr (Float 2000) \<and>
   actualFinalDebt example_strptime example_paid = Inr (Float 993) \<and>
   actualFinalDebt example_strptime example_overpaid = Inr (Float 0)"
proof -
  let ?dr = "(1007 / 1000) powr (1 / 28) - 1 :: real"
  have a: "actualFinalDebt example_strptime example_debt = Inr (Float 2000)"
  proof -
    have e: "payments example_debt = []" "final_capital example_debt = 2000"
      by (simp_all add: example_debt_def)
    have dates: "list_all (\<lambda>p. valid p \<longrightarrow> example_strptime (date p) \<noteq> None)
                   (payments example_debt)"
      by (simp add: e)
    have factor: "?dr \<noteq> - 1 \<or>
        list_all (\<lambda>p. valid p \<longrightarrow>
          (case example_strptime (date p) of None \<Rightarrow> True
           | Some d \<Rightarrow> d \<le> final_date example_debt)) (payments example_debt)"
      using example_daily_ne by (rule disjI1)
    have nonneg: "0 \<le> final_capital example_debt \<or> payments example_debt \<noteq> []"
      by (simp add: e)
    from actualFinalDebt_formula [OF example_daily dates factor nonneg]
    have "payments example_debt = [] \<longrightarrow>
          actualFinalDebt example_strptime example_debt =
            Inr (Float (final_capital example_debt))"
      by (rule conjunct1 [OF conjunct2])
    with e show ?thesis by simp
  qed
  have b: "actualFinalDebt example_strptime example_paid = Inr (Float 993)"
  proof -
    have dates: "list_all (\<lambda>p. valid p \<longrightarrow> example_strptime (date p) \<noteq> None)
                   (payments example_paid)"
      by (simp add: example_paid_eq example_strptime_def)
    have factor: "?dr \<noteq> - 1 \<or>
        list_all (\<lambda>p. valid p \<longrightarrow>
          (case example_strptime (date p) of None \<Rightarrow> True
           | Some d \<Rightarrow> d \<le> final_date example_paid)) (payments example_paid)"
      using example_daily_ne by (rule disjI1)
    have nonneg: "0 \<le> final_capital example_paid \<or> payments example_paid \<noteq> []"
      by (simp add: example_paid_eq)
    from actualFinalDebt_formula [OF example_paid_daily dates factor nonneg]
    have "actualFinalDebt example_strptime example_paid =
          Inr (Float (outstandingBalance_spec example_strptime example_paid ?dr))"
      by (rule conjunct1)
    then show ?thesis by (simp only: example_paid_spec)
  qed
  have c: "actualFinalDebt example_strptime example_overpaid = Inr (Float 0)"
  proof -
    have daily: "discountRate example_overpaid (PStr ''daily'') = Inr (Float ?dr)"
      using example_daily by (simp add: example_overpaid_eq discountRate_def)
    have dates: "list_all (\<lambda>p. valid p \<longrightarrow> example_strptime (date p) \<noteq> None)
                   (payments example_overpaid)"
      by (simp add: example_overpaid_eq example_strptime_def)
    have factor: "?dr \<noteq> - 1 \<or>
        list_all (\<lambda>p. valid p \<longrightarrow>
          (case example_strptime (date p) of None \<Rightarrow> True
           | Some d \<Rightarrow> d \<le> final_date example_overpaid)) (payments example_overpaid)"
      using example_daily_ne by (rule disjI1)
    have nonneg: "0 \<le> final_capital example_overpaid \<or> payments example_overpaid \<noteq> []"
      by (simp add: example_overpaid_eq)
    from actualFinalDebt_formula [OF daily dates factor nonneg]
    have "actualFinalDebt example_strptime example_overpaid =
          Inr (Float (outstandingBalance_spec example_strptime example_overpaid ?dr))"
      by (rule conjunct1)
    then show ?thesis by (simp only: example_overpaid_spec)
  qed
  from a b c show ?thesis by (intro conjI)
qed

text \<open>
  Where a hypothesis fails, the formula has no value or is not what the code returns.
  With the principal -100 and no payment the early return gives -100, without the floor
  that the path through the loop applies. A payment dated \<^verbatim>\<open>'tomorrow'\<close> raises
  ValueError. With the daily rate -1 a payment dated after maturity raises
  ZeroDivisionError.
\<close>

lemma actualFinalDebt_outside_hypotheses:
  "payments example_negative = [] \<and>
   actualFinalDebt example_strptime example_negative = Inr (Float (- 100)) \<and>
   actualFinalDebt example_strptime example_undated = Inl ValueError \<and>
   discountRate example_late (PStr ''daily'') = Inr (Float (- 1)) \<and>
   actualFinalDebt example_strptime example_late = Inl ZeroDivisionError"
  by (simp add: example_strptime_def example_debt_def example_negative_def
      actualFinalDebt_def example_undated_def example_late_eq
      registerPayment_def no_now_3 daysToGo_def discountRate_def rate_def annualRate_def
      cap_options_def equivalentRate_def futureValue_def)

subsection \<open>Invalidating and restoring every payment\<close>

text \<open>
  C7, as the code has it. For every ledger with a non-empty payment list: after every
  payment is invalidated by its id the balance is the final capital floored at zero (the
  final capital itself when it is not negative); restoring those ids then marks every
  payment valid; so the balance is back at its value before the invalidations whenever
  every payment was valid before them.
\<close>

theorem invalidate_restore_every:
  assumes "payments self \<noteq> []"
  shows "actualFinalDebt strptime (invalidate_every self) =
           Inr (Float (max 0 (final_capital self))) \<and>
         payments (restore_every (map pid (payments self)) (invalidate_every self)) =
           map (\<lambda>p. p\<lparr>valid := True\<rparr>) (payments self) \<and>
         (list_all valid (payments self) \<longrightarrow>
            actualFinalDebt strptime
              (restore_every (map pid (payments self)) (invalidate_every self)) =
            actualFinalDebt strptime self)"
proof (intro conjI impI)
  have fields: "final_capital (invalidate_every self) = final_capital self"
    by (rule invalidate_every_frame)
  have "total_loop strptime (invalidate_every self) (payments (invalidate_every self)) (Float 0) =
        Inr (Float 0)"
    by (rule total_loop_all_invalid) (simp add: payments_invalidate_every list_all_iff)
  with assms fields
  show "actualFinalDebt strptime (invalidate_every self) =
          Inr (Float (max 0 (final_capital self)))"
    by (simp add: actualFinalDebt_def payments_invalidate_every max_def)
next
  show "payments (restore_every (map pid (payments self)) (invalidate_every self)) =
          map (\<lambda>p. p\<lparr>valid := True\<rparr>) (payments self)"
    by (rule payments_restore_invalidate)
next
  assume "list_all valid (payments self)"
  then have "map (\<lambda>p. p\<lparr>valid := True\<rparr>) (payments self) = payments self"
    by (intro map_idI) (simp add: list_all_iff)
  then have same: "payments (restore_every (map pid (payments self)) (invalidate_every self)) =
      payments self"
    by (simp add: payments_restore_invalidate)
  show "actualFinalDebt strptime
          (restore_every (map pid (payments self)) (invalidate_every self)) =
        actualFinalDebt strptime self"
    using same
    by (intro actualFinalDebt_cong)
       (simp_all only: restore_every_frame invalidate_every_frame)
qed

text \<open>C7 on the ledger with one valid payment.\<close>

theorem invalidate_restore_every_witness:
  "actualFinalDebt example_strptime (invalidate_every example_one) = Inr (Float 2000) \<and>
   payments (restore_every (map pid (payments example_one)) (invalidate_every example_one)) =
     [\<lparr>pid = 1, date = ''Dec 04 2024'', amount = 1000, valid = True\<rparr>] \<and>
   actualFinalDebt example_strptime
     (restore_every (map pid (payments example_one)) (invalidate_every example_one)) =
   actualFinalDebt example_strptime example_one"
proof -
  have ne: "payments example_one \<noteq> []" by (simp add: example_one_eq)
  have allv: "list_all valid (payments example_one)" by (simp add: example_one_eq)
  have fc: "final_capital example_one = 2000" by (simp add: example_one_eq example_debt_def)
  have ps: "map (\<lambda>p. p\<lparr>valid := True\<rparr>) (payments example_one) =
            [\<lparr>pid = 1, date = ''Dec 04 2024'', amount = 1000, valid = True\<rparr>]"
    by (simp add: example_one_eq)
  from invalidate_restore_every [OF ne, of example_strptime] allv show ?thesis
    by (simp add: fc ps)
qed

text \<open>
  C7 as stated fails: on the ledger whose second payment was already invalid, the balance
  is 993 before and 493 after every payment is invalidated and restored, because the
  restore makes the second payment valid.
\<close>

theorem restore_revives_invalid_payment:
  "payments example_paid =
     [\<lparr>pid = 1, date = ''Dec 04 2024'', amount = 1000, valid = True\<rparr>,
      \<lparr>pid = 2, date = ''Jan 01 2025'', amount = 500, valid = False\<rparr>] \<and>
   actualFinalDebt example_strptime example_paid = Inr (Float 993) \<and>
   actualFinalDebt example_strptime
     (restore_every (map pid (payments example_paid)) (invalidate_every example_paid)) =
   Inr (Float 493)"
proof -
  let ?after = "restore_every (map pid (payments example_paid)) (invalidate_every example_paid)"
  have ps: "payments ?after =
     [\<lparr>pid = 1, date = ''Dec 04 2024'', amount = 1000, valid = True\<rparr>,
      \<lparr>pid = 2, date = ''Jan 01 2025'', amount = 500, valid = True\<rparr>]"
    by (simp only: payments_restore_invalidate) (simp add: example_paid_eq)
  have same: "final_capital ?after = 2000" "final_date ?after = 739252"
    "discount_rate ?after = discount_rate example_debt"
    by (simp_all only: restore_every_frame invalidate_every_frame)
       (simp_all add: example_paid_eq example_debt_def)
  have daily: "discountRate ?after (PStr ''daily'') =
               Inr (Float ((1007 / 1000) powr (1 / 28) - 1))"
    using example_daily by (simp add: discountRate_def same)
  have spec: "outstandingBalance_spec example_strptime ?after ((1007 / 1000) powr (1 / 28) - 1) = 493"
    using root28_power [of "1007 / 1000"]
    by (simp add: outstandingBalance_spec_def ps same example_strptime_def)
  have "actualFinalDebt example_strptime ?after =
        Inr (Float (outstandingBalance_spec example_strptime ?after
                      ((1007 / 1000) powr (1 / 28) - 1)))"
    using daily example_daily_ne
    by (rule actualFinalDebt_nonempty) (simp_all add: ps example_strptime_def)
  then have after: "actualFinalDebt example_strptime ?after = Inr (Float 493)"
    by (simp only: spec)
  have before: "payments example_paid =
     [\<lparr>pid = 1, date = ''Dec 04 2024'', amount = 1000, valid = True\<rparr>,
      \<lparr>pid = 2, date = ''Jan 01 2025'', amount = 500, valid = False\<rparr>]"
    by (simp add: example_paid_eq)
  from before example_paid_balance after show ?thesis by (intro conjI)
qed

subsection \<open>Resetting the payments\<close>

text \<open>
  C5, as the code has it. After \<open>resetPayments\<close> the payment list is empty and the list
  of invalidated ids is what it was; both are empty once \<open>resetInvalidPayments\<close> has
  run as well.
\<close>

theorem resetPayments_keeps_invalid:
  "payments (resetPayments self) = [] \<and>
   invalid_payments (resetPayments self) = invalid_payments self \<and>
   payments (resetInvalidPayments (resetPayments self)) = [] \<and>
   invalid_payments (resetInvalidPayments (resetPayments self)) = []"
  by (simp add: resetPayments_def resetInvalidPayments_def)

text \<open>
  C5 as stated fails: the ledger that recorded the invalid id 2 still holds it after the
  reset, and of two payments registered afterwards (ids 1 and 2) the second is marked
  invalid as soon as the first is invalidated.
\<close>

theorem resetPayments_stale_id:
  "invalid_payments example_paid = [2] \<and>
   payments (resetPayments example_paid) = [] \<and>
   invalid_payments (resetPayments example_paid) = [2] \<and>
   payments (invalidPayments
      (registerPayment ''Jan 01 2025''
         (registerPayment ''Jan 01 2025'' (resetPayments example_paid) 100 ''Dec 04 2024'')
         200 ''Jan 01 2025'') 1) =
     [\<lparr>pid = 1, date = ''Dec 04 2024'', amount = 100, valid = False\<rparr>,
      \<lparr>pid = 2, date = ''Jan 01 2025'', amount = 200, valid = False\<rparr>]"
  by (simp add: example_paid_eq resetPayments_def registerPayment_def invalidPayments_eq
      no_now_1 no_now_2 example_debt_def)

section \<open>Status and simulation\<close>

text \<open>
  With a positive balance on the maturity date none of the three tests of \<open>status\<close>
  holds: it returns whatever an earlier call stored, and raises when there is none.
\<close>

lemma status_tie:
  assumes "actualFinalDebt strptime self = Inr (Float b)" "0 < b"
    and "final_date self = actual_date self"
  shows "status strptime self =
         (case debt_status self of None \<Rightarrow> Inl AttributeError | Some s \<Rightarrow> Inr (s, self))"
  using assms by (simp add: status_def daysToGo_def py_eq_def)

lemma status_done:
  assumes "actualFinalDebt strptime self = Inr (Float 0)"
  shows "status strptime self = Inr (''Done.'', self\<lparr>debt_status := Some ''Done.''\<rparr>)"
proof -
  have "actualFinalDebt strptime (self\<lparr>debt_status := Some ''Done.''\<rparr>) = Inr (Float 0)"
    using assms actualFinalDebt_cong [of "self\<lparr>debt_status := Some ''Done.''\<rparr>" self strptime]
    by simp
  with assms show ?thesis
    by (simp add: status_def daysToGo_def py_eq_def Let_def)
qed

lemma status_overdue:
  assumes "actualFinalDebt strptime self = Inr (Float b)" "0 < b"
    and "final_date self < actual_date self"
  shows "status strptime self = Inr (''Overdue.'', self\<lparr>debt_status := Some ''Overdue.''\<rparr>)"
  using assms by (simp add: status_def daysToGo_def py_eq_def)

lemma status_active:
  assumes "actualFinalDebt strptime self = Inr (Float b)" "0 < b"
    and "actual_date self < final_date self"
  shows "status strptime self = Inr (''Active.'', self\<lparr>debt_status := Some ''Active.''\<rparr>)"
  using assms by (simp add: status_def daysToGo_def py_eq_def)

text \<open>
  C2 on the code. The claim expects Active when the balance is positive and the reference
  date is the maturity date. The example ledger is queried on its maturity date with the
  balance 2000: zero days to go, and the first \<open>status\<close> call raises AttributeError.
\<close>

theorem status_at_maturity:
  "final_date example_debt = actual_date example_debt \<and>
   actualFinalDebt example_strptime example_debt = Inr (Float 2000) \<and>
   daysToGo example_strptime example_debt NoDate = Inr 0 \<and>
   status example_strptime example_debt = Inl AttributeError"
  by (simp add: status_def daysToGo_def py_eq_def actualFinalDebt_def example_debt_def)

text \<open>\<open>simulate\<close> raises AttributeError for every ledger and every argument.\<close>

lemma simulate_raises: "simulate self periods cap_desc initial_capital = Inl AttributeError"
  by (simp add: simulate_def debt_getattr_rate_def)

text \<open>
  C4 on the code. The claim expects the future value of the principal at the contracted
  periodic rate. On the example ledger \<open>simulate\<close> raises AttributeError, with the
  defaults as with a principal override.
\<close>

theorem simulate_AttributeError:
  "simulate example_debt (Float 1) (PStr ''1y'') None = Inl AttributeError \<and>
   simulate example_debt (Float 12) (PInt 12) (Some 5000) = Inl AttributeError"
  by (simp add: simulate_def debt_getattr_rate_def)

section \<open>Bonds\<close>

lemma default_bond_eq: "default_bond = Inr default_bond_state"
  by (simp add: default_bond_def Bonds_init_def py_int_def default_bond_state_def Let_def)

text \<open>
  C9. For the bond with nominal value 100, coupon period 182 days, coupon rate 0.082,
  market rate 0.085 and 100 days to maturity: the pending coupon count is 100/182 (0.549
  to three decimals), its integer part is 0, the list of discounted whole coupons is
  empty and \<open>dirtyPrice\<close> returns the one coupon value 100 * 182 * 0.082 / 360 (4.146
  to three decimals); \<open>passed_units\<close> is 182 * (1 - 100/182), which is 82 days, and
  \<open>cleanPrice\<close> subtracts the interest 100 * 0.082 * passed_units / 360 accrued over it
  from the dirty price discounted over the stub.
\<close>

theorem default_bond_example:
  "default_bond = Inr default_bond_state \<and>
   pending_coupons (coupons default_bond_state) = 100 / 182 \<and>
   \<bar>pending_coupons (coupons default_bond_state) - 549 / 1000\<bar> < 5 / 10000 \<and>
   integer_coupons (coupons default_bond_state) = 0 \<and>
   dirtyPrice default_bond_state =
     Inr (Float (100 * 182 * (82 / 1000) / 360), default_bond_state\<lparr>lsp := Some []\<rparr>) \<and>
   \<bar>100 * 182 * (82 / 1000) / 360 - 4146 / 1000\<bar> < (5 / 10000 :: real) \<and>
   passed_units default_bond_state = 182 * (1 - 100 / 182) \<and>
   passed_units default_bond_state = 82 \<and>
   cleanPrice default_bond_state =
     Inr (Float (100 * 182 * (82 / 1000) / 360
                   / (1 + 182 * (85 / 1000) / 360) powr (100 / 182)
                 - 100 * (82 / 1000) * passed_units default_bond_state / 360),
          default_bond_state\<lparr>lsp := Some [],
            dirty_price := Some (Float (100 * 182 * (82 / 1000) / 360)),
            delayed_interest := Some (100 * (82 / 1000) * passed_units default_bond_state / 360),
            clean_price := Some (Float (100 * 182 * (82 / 1000) / 360
                   / (1 + 182 * (85 / 1000) / 360) powr (100 / 182)
                 - 100 * (82 / 1000) * passed_units default_bond_state / 360))\<rparr>)"
  by (simp add: default_bond_eq default_bond_state_def dirtyPrice_def cleanPrice_def Let_def)

lemma Bonds_init_lsp: "Bonds_init n d i m t = Inr b \<Longrightarrow> lsp b = None"
  by (auto simp: Bonds_init_def Let_def split: if_splits)

lemma getDuration_no_lsp: "lsp b = None \<Longrightarrow> getDuration b = Inl AttributeError"
  by (simp add: getDuration_def)

lemma getSensibility_no_lsp: "lsp b = None \<Longrightarrow> getSensibility b = Inl AttributeError"
  by (simp add: getSensibility_def getDuration_no_lsp)

lemma dirtyPrice_sets_lsp: "dirtyPrice b = Inr (v, b') \<Longrightarrow> lsp b' \<noteq> None"
  by (auto simp: dirtyPrice_def bindE_def Let_def split: sum.splits if_splits)

lemma cleanPrice_sets_lsp: "cleanPrice b = Inr (v, b') \<Longrightarrow> lsp b' \<noteq> None"
  by (auto simp: cleanPrice_def bindE_def Let_def split: sum.splits if_splits prod.splits dest: dirtyPrice_sets_lsp)

text \<open>
  C10. On every newly constructed bond the list of discounted cash flows does not exist,
  and \<open>getDuration\<close> and \<open>getSensibility\<close> raise AttributeError instead of returning
  a duration; the list exists after any successful \<open>dirtyPrice\<close> or \<open>cleanPrice\<close>.
\<close>

theorem getDuration_needs_dirtyPrice:
  assumes "Bonds_init nominal delta interest market time2maturity = Inr b"
  shows "lsp b = None \<and>
         getDuration b = Inl AttributeError \<and>
         getSensibility b = Inl AttributeError \<and>
         (\<forall>v b'. dirtyPrice b = Inr (v, b') \<or> cleanPrice b = Inr (v, b') \<longrightarrow> lsp b' \<noteq> None)"
  using assms
  by (auto simp: getDuration_no_lsp getSensibility_no_lsp
           dest: Bonds_init_lsp dirtyPrice_sets_lsp cleanPrice_sets_lsp)

text \<open>C10 on the bond built from the default arguments.\<close>

theorem getDuration_needs_dirtyPrice_witness:
  "Bonds_init 100 182 (82 / 1000) (85 / 1000) 100 = Inr default_bond_state \<and>
   lsp default_bond_state = None \<and>
   getDuration default_bond_state = Inl AttributeError \<and>
   getSensibility default_bond_state = Inl AttributeError \<and>
   dirtyPrice default_bond_state =
     Inr (Float (100 * 182 * (82 / 1000) / 360), default_bond_state\<lparr>lsp := Some []\<rparr>) \<and>
   lsp (default_bond_state\<lparr>lsp := Some []\<rparr>) \<noteq> None"
proof -
  have init: "Bonds_init 100 182 (82 / 1000) (85 / 1000) 100 = Inr default_bond_state"
    using default_bond_eq by (simp add: default_bond_def)
  have dp: "dirtyPrice default_bond_state =
     Inr (Float (100 * 182 * (82 / 1000) / 360), default_bond_state\<lparr>lsp := Some []\<rparr>)"
    by (simp add: default_bond_state_def dirtyPrice_def Let_def)
  from getDuration_needs_dirtyPrice [OF init] init dp show ?thesis by simp
qed

end
